theory Spec2Isabelle
  imports Complex_Main
begin

section \<open>Port keys of a process node (src/nodes/ProcessNode.ts)\<close>

text \<open>
  A process node keeps its ports in two JavaScript objects, \<open>inputs\<close> and \<open>outputs\<close>,
  keyed by a string.  Such an object is modelled as an association list in insertion
  order (the order \<open>Object.values\<close> enumerates, no key of this program being an array
  index).  Strings are lists of 8-bit characters; of \<open>toLowerCase\<close> only the folding of
  the ASCII letters is modelled, every other character lying outside \<open>[a-z0-9]\<close> before
  and after folding.
\<close>

datatype FlowSide = Side_input | Side_output | Side_knowHow | Side_service

datatype Location = Loc_left | Loc_right | Loc_top | Loc_bottom

record PortMeta =
  side :: FlowSide
  location :: Location
  flowType :: string
  fieldPath :: "string option"

record PortIntf =
  name :: string
  data :: PortMeta

record ProcessPorts =
  inputs :: "(string \<times> PortIntf) list"
  outputs :: "(string \<times> PortIntf) list"

fun inputSideToLocation :: "FlowSide \<Rightarrow> Location" where
  "inputSideToLocation Side_input = Loc_left"
| "inputSideToLocation Side_knowHow = Loc_top"
| "inputSideToLocation Side_service = Loc_bottom"
| "inputSideToLocation Side_output = Loc_right"

fun outputSideToLocation :: "FlowSide \<Rightarrow> Location" where
  "outputSideToLocation Side_input = Loc_left"
| "outputSideToLocation Side_output = Loc_right"
| "outputSideToLocation Side_knowHow = Loc_top"
| "outputSideToLocation Side_service = Loc_bottom"

fun sideName :: "FlowSide \<Rightarrow> string" where
  "sideName Side_input = ''input''"
| "sideName Side_output = ''output''"
| "sideName Side_knowHow = ''knowHow''"
| "sideName Side_service = ''service''"

definition hasOwnProperty :: "(string \<times> 'a) list \<Rightarrow> string \<Rightarrow> bool" where
  "hasOwnProperty obj key = (map_of obj key \<noteq> None)"

text \<open>\<open>obj[key] = v\<close>: an existing key keeps its place and takes the new value, a new
  key goes to the end.\<close>

fun setProperty :: "string \<Rightarrow> 'a \<Rightarrow> (string \<times> 'a) list \<Rightarrow> (string \<times> 'a) list" where
  "setProperty key v [] = [(key, v)]"
| "setProperty key v ((k, w) # rest) =
     (if k = key then (k, v) # rest else (k, w) # setProperty key v rest)"

definition toLowerChar :: "char \<Rightarrow> char" where
  "toLowerChar c =
     (let n = (of_char c :: nat) in if 65 \<le> n \<and> n \<le> 90 then char_of (n + 32) else c)"

definition toLowerCase :: "string \<Rightarrow> string" where
  "toLowerCase s = map toLowerChar s"

definition isKeyChar :: "char \<Rightarrow> bool" where
  "isKeyChar c =
     (let n = (of_char c :: nat) in (97 \<le> n \<and> n \<le> 122) \<or> (48 \<le> n \<and> n \<le> 57))"

text \<open>\<open>.replace(/[^a-z0-9]+/g, "_")\<close>: every maximal run of other characters becomes
  one underscore.\<close>

function replaceRuns :: "string \<Rightarrow> string" where
  "replaceRuns [] = []"
| "replaceRuns (c # cs) =
     (if isKeyChar c then c # replaceRuns cs
      else CHR ''_'' # replaceRuns (dropWhile (\<lambda>d. \<not> isKeyChar d) cs))"
  by pat_completeness auto
termination
  by (relation "measure length") (auto simp: le_imp_less_Suc length_dropWhile_le)

text \<open>\<open>.replace(/^_+|_+$/g, "")\<close>: the leading and the trailing underscores go.\<close>

definition trimUnderscores :: "string \<Rightarrow> string" where
  "trimUnderscores s =
     rev (dropWhile (\<lambda>c. c = CHR ''_'') (rev (dropWhile (\<lambda>c. c = CHR ''_'') s)))"

text \<open>The decimal text of a loop index, as a template literal prints it.\<close>

definition digitChar :: "nat \<Rightarrow> char" where
  "digitChar d = char_of (48 + d)"

fun showNat :: "nat \<Rightarrow> string" where
  "showNat n = (if n < 10 then [digitChar n] else showNat (n div 10) @ [digitChar (n mod 10)])"

declare showNat.simps [simp del]

definition suffixed :: "string \<Rightarrow> nat \<Rightarrow> string" where
  "suffixed normalized index = normalized @ ''_'' @ showNat index"

lemma digitChar_inj: "a < 10 \<Longrightarrow> b < 10 \<Longrightarrow> digitChar a = digitChar b \<Longrightarrow> a = b"
proof -
  assume a: "a < 10" and b: "b < 10" and e: "digitChar a = digitChar b"
  from e have "(of_char (char_of (48 + a) :: char) :: nat) = of_char (char_of (48 + b) :: char)"
    by (simp add: digitChar_def)
  with a b show "a = b" by simp
qed

lemma showNat_nonempty: "showNat n \<noteq> []"
  by (subst showNat.simps) simp

lemma showNat_inj: "showNat m = showNat n \<Longrightarrow> m = n"
proof (induction m arbitrary: n rule: showNat.induct)
  case (1 m)
  show ?case
  proof (cases "m < 10")
    case True
    show ?thesis
    proof (cases "n < 10")
      case n: True
      from "1.prems" True n have "digitChar m = digitChar n"
        by (simp add: showNat.simps [of m] showNat.simps [of n])
      with True n show ?thesis by (blast intro: digitChar_inj)
    next
      case n: False
      from "1.prems" True n have "showNat (n div 10) = []"
        by (simp add: showNat.simps [of m] showNat.simps [of n])
      then show ?thesis by (simp add: showNat_nonempty)
    qed
  next
    case False
    show ?thesis
    proof (cases "n < 10")
      case n: True
      from "1.prems" False n have "showNat (m div 10) = []"
        by (simp add: showNat.simps [of m] showNat.simps [of n])
      then show ?thesis by (simp add: showNat_nonempty)
    next
      case n: False
      from "1.prems" False n
      have e: "showNat (m div 10) = showNat (n div 10)"
        and d: "digitChar (m mod 10) = digitChar (n mod 10)"
        by (simp_all add: showNat.simps [of m] showNat.simps [of n])
      from "1.IH" [OF False e] have q: "m div 10 = n div 10" .
      from d have r: "m mod 10 = n mod 10" by (intro digitChar_inj) simp_all
      from q r show ?thesis by (metis div_mult_mod_eq)
    qed
  qed
qed

lemma suffixed_inj: "suffixed s i = suffixed s j \<Longrightarrow> i = j"
  by (simp add: suffixed_def showNat_inj)

text \<open>The \<open>while\<close> loop of \<open>makeKey\<close>: while the key is taken, the next suffix is tried.\<close>

function keyLoop :: "(string \<times> 'a) list \<Rightarrow> string \<Rightarrow> string \<Rightarrow> nat \<Rightarrow> string" where
  "keyLoop ioCollection normalized key index =
     (if hasOwnProperty ioCollection key
      then keyLoop ioCollection normalized (suffixed normalized index) (index + 1)
      else key)"
  by pat_completeness auto

definition takenFrom :: "(string \<times> 'a) list \<Rightarrow> string \<Rightarrow> nat \<Rightarrow> nat set" where
  "takenFrom obj normalized index = {j. index \<le> j \<and> hasOwnProperty obj (suffixed normalized j)}"

lemma hasOwnProperty_iff: "hasOwnProperty obj key \<longleftrightarrow> key \<in> fst ` set obj"
  by (simp add: hasOwnProperty_def map_of_eq_None_iff)

lemma finite_takenFrom: "finite (takenFrom obj normalized index)"
proof -
  have "takenFrom obj normalized index \<subseteq> suffixed normalized -` (fst ` set obj)"
    by (auto simp: takenFrom_def hasOwnProperty_iff)
  moreover have "finite (suffixed normalized -` (fst ` set obj))"
    by (rule finite_vimageI) (auto simp: inj_on_def dest: suffixed_inj)
  ultimately show ?thesis by (rule finite_subset)
qed

lemma takenFrom_Suc:
  "takenFrom obj normalized (Suc index) = takenFrom obj normalized index - {index}"
  by (auto simp: takenFrom_def)

definition loopMeasure :: "(string \<times> 'a) list \<times> string \<times> string \<times> nat \<Rightarrow> nat" where
  "loopMeasure = (\<lambda>(obj, normalized, key, index).
     2 * card (takenFrom obj normalized index) + (if hasOwnProperty obj key then 1 else 0))"

termination keyLoop
proof (relation "measure loopMeasure", goal_cases)
  case 1
  show ?case by simp
next
  case (2 ioCollection normalized key index)
  let ?S = "takenFrom ioCollection normalized index"
  show ?case
  proof (cases "hasOwnProperty ioCollection (suffixed normalized index)")
    case True
    then have "index \<in> ?S" by (simp add: takenFrom_def)
    then have "card (?S - {index}) < card ?S"
      by (intro card_Diff1_less finite_takenFrom)
    with 2 True show ?thesis by (simp add: loopMeasure_def takenFrom_Suc)
  next
    case False
    then have "index \<notin> ?S" by (simp add: takenFrom_def)
    with 2 False show ?thesis by (simp add: loopMeasure_def takenFrom_Suc)
  qed
qed

declare keyLoop.simps [simp del]

definition makeKey :: "ProcessPorts \<Rightarrow> string \<Rightarrow> FlowSide \<Rightarrow> string \<Rightarrow> string option \<Rightarrow> string" where
  "makeKey node nm sd ft fp =
     (let source = (case fp of Some p \<Rightarrow> p | None \<Rightarrow> sideName sd @ ''_'' @ ft @ ''_'' @ nm);
          normalized = trimUnderscores (replaceRuns (toLowerCase source));
          ioCollection = (if sd = Side_output \<or> sd = Side_knowHow then outputs node else inputs node)
      in keyLoop ioCollection normalized normalized 1)"

definition addFlowInterface ::
  "string \<Rightarrow> string \<Rightarrow> FlowSide \<Rightarrow> string option \<Rightarrow> ProcessPorts \<Rightarrow> ProcessPorts" where
  "addFlowInterface nm ft sd fp node =
     (let key = makeKey node nm sd ft fp;
          intf = \<lparr>name = nm,
                  data = \<lparr>side = sd, location = outputSideToLocation sd, flowType = ft, fieldPath = fp\<rparr>\<rparr>
      in if sd = Side_output \<or> sd = Side_knowHow
         then node\<lparr>outputs := setProperty key intf (outputs node)\<rparr>
         else node\<lparr>inputs := setProperty key
                  (intf\<lparr>data := (data intf)\<lparr>location := inputSideToLocation sd\<rparr>\<rparr>) (inputs node)\<rparr>)"

lemma keyLoop_free: "\<not> hasOwnProperty obj (keyLoop obj normalized key index)"
  by (induction obj normalized key index rule: keyLoop.induct)
     (subst keyLoop.simps, simp)

lemma setProperty_fresh:
  "key \<notin> fst ` set obj \<Longrightarrow> setProperty key v obj = obj @ [(key, v)]"
  by (induction obj) auto

definition targetCollection :: "FlowSide \<Rightarrow> ProcessPorts \<Rightarrow> (string \<times> PortIntf) list" where
  "targetCollection sd node = (if sd = Side_output \<or> sd = Side_knowHow then outputs node else inputs node)"

definition otherCollection :: "FlowSide \<Rightarrow> ProcessPorts \<Rightarrow> (string \<times> PortIntf) list" where
  "otherCollection sd node = (if sd = Side_output \<or> sd = Side_knowHow then inputs node else outputs node)"

lemma makeKey_free: "\<not> hasOwnProperty (targetCollection sd node) (makeKey node nm sd ft fp)"
  by (simp add: makeKey_def targetCollection_def Let_def keyLoop_free)

text \<open>
  Claim C10.  Whatever the node's ports are, the key \<open>makeKey\<close> returns is not a key
  of the target collection (the suffix loop ends, and ends on a free key), so
  \<open>addFlowInterface\<close> appends the new port under that key behind the ports that were
  there, each of which keeps its key and its value; the other collection is untouched.
\<close>

theorem addFlowInterface_never_overwrites:
  "\<not> hasOwnProperty (targetCollection sd node) (makeKey node nm sd ft fp) \<and>
   (\<exists>intf. targetCollection sd (addFlowInterface nm ft sd fp node)
            = targetCollection sd node @ [(makeKey node nm sd ft fp, intf)] \<and> name intf = nm) \<and>
   otherCollection sd (addFlowInterface nm ft sd fp node) = otherCollection sd node"
proof -
  let ?key = "makeKey node nm sd ft fp"
  have free: "\<not> hasOwnProperty (targetCollection sd node) ?key"
    by (rule makeKey_free)
  then have notin: "?key \<notin> fst ` set (targetCollection sd node)"
    by (simp add: hasOwnProperty_iff)
  show ?thesis
  proof (cases "sd = Side_output \<or> sd = Side_knowHow")
    case True
    with notin have "?key \<notin> fst ` set (outputs node)"
      by (simp add: targetCollection_def)
    from setProperty_fresh [OF this] True free show ?thesis
      by (simp add: addFlowInterface_def targetCollection_def otherCollection_def Let_def)
  next
    case False
    with notin have "?key \<notin> fst ` set (inputs node)"
      by (simp add: targetCollection_def)
    from setProperty_fresh [OF this] False free show ?thesis
      by (simp add: addFlowInterface_def targetCollection_def otherCollection_def Let_def)
  qed
qed

definition demoPort :: PortIntf where
  "demoPort = \<lparr>name = ''Input 1'',
     data = \<lparr>side = Side_input, location = Loc_left, flowType = ''material'',
              fieldPath = Some ''inputInstance.material''\<rparr>\<rparr>"

text \<open>A second port for the field path \<open>inputInstance.material\<close> gets the suffix \<open>_1\<close>.\<close>

theorem addFlowInterface_never_overwrites_witness:
  "makeKey \<lparr>inputs = [(''inputinstance_material'', demoPort)], outputs = []\<rparr>
      ''Input 3'' Side_input ''material'' (Some ''inputInstance.material'') = ''inputinstance_material_1'' \<and>
   \<not> hasOwnProperty [(''inputinstance_material'', demoPort)] ''inputinstance_material_1'' \<and>
   map fst (inputs (addFlowInterface ''Input 3'' ''material'' Side_input (Some ''inputInstance.material'')
      \<lparr>inputs = [(''inputinstance_material'', demoPort)], outputs = []\<rparr>))
     = [''inputinstance_material'', ''inputinstance_material_1'']"
proof -
  let ?node = "\<lparr>inputs = [(''inputinstance_material'', demoPort)], outputs = []\<rparr>"
  have k: "makeKey ?node ''Input 3'' Side_input ''material'' (Some ''inputInstance.material'')
            = ''inputinstance_material_1''"
    by code_simp
  from addFlowInterface_never_overwrites
    [of Side_input ?node "''Input 3''" "''material''" "Some ''inputInstance.material''"]
  show ?thesis
    unfolding k by (auto simp: targetCollection_def)
qed

section \<open>The diagram and the layout pass (src/App.vue, autoArrangeNodes)\<close>

text \<open>
  JavaScript numbers are idealised as real numbers: sums, halves and maxima are exact.
  The value \<open>-Infinity\<close>, with which the pass starts two of its running maxima, is
  \<open>None\<close> of a \<open>real option\<close>.

  A node object is named by its index in \<open>graph.nodes\<close>, a port object
  (\<open>NodeInterface\<close>) by a natural number.  Of a node the pass reads its id (to find its
  rendered element), its type, title and resource type, the values of its \<open>inputs\<close> and
  \<open>outputs\<close> objects in enumeration order, and its position.
\<close>

record Size =
  width :: real
  height :: real

record node =
  nid :: string
  ntype :: string
  title :: string
  resourceType :: string
  inputValues :: "nat list"
  outputValues :: "nat list"
  posx :: real
  posy :: real

record connection =
  cfrom :: nat
  cto :: nat

record graph =
  nodes :: "node list"
  connections :: "connection list"
  scaling :: real
  panning :: "real \<times> real"

text \<open>The browser: the window's inner size and, for an element id that is in the
  document, the width and height of its bounding rectangle.\<close>

record env =
  innerWidth :: real
  innerHeight :: real
  boundingRect :: "string \<Rightarrow> Size option"

definition getNodeSize :: "env \<Rightarrow> graph \<Rightarrow> nat \<Rightarrow> Size \<Rightarrow> Size" where
  "getNodeSize e g i fallback =
     (case boundingRect e (nid (nodes g ! i)) of
        None \<Rightarrow> fallback
      | Some rect \<Rightarrow>
          (let scale = (if scaling g = 0 then 1 else scaling g)
           in \<lparr>width = width rect / scale, height = height rect / scale\<rparr>))"

abbreviation processFallback :: Size where
  "processFallback \<equiv> \<lparr>width = 200, height = 180\<rparr>"

abbreviation resourceFallback :: Size where
  "resourceFallback \<equiv> \<lparr>width = 200, height = 120\<rparr>"

definition centerX :: "env \<Rightarrow> graph \<Rightarrow> real" where
  "centerX e g = innerWidth e / (2 * scaling g) - fst (panning g)"

definition centerY :: "env \<Rightarrow> graph \<Rightarrow> real" where
  "centerY e g = innerHeight e / (2 * scaling g) - snd (panning g)"

definition setPos :: "nat \<Rightarrow> real \<Rightarrow> real \<Rightarrow> graph \<Rightarrow> graph" where
  "setPos i x y g = g\<lparr>nodes := (nodes g)[i := (nodes g ! i)\<lparr>posx := x, posy := y\<rparr>]\<rparr>"

definition isPortrait :: "env \<Rightarrow> bool" where
  "isPortrait e = (innerHeight e > innerWidth e)"

definition processNodes :: "graph \<Rightarrow> nat list" where
  "processNodes g = filter (\<lambda>i. ntype (nodes g ! i) = ''ProcessNode'') [0..<length (nodes g)]"

definition resourceNodes :: "graph \<Rightarrow> nat list" where
  "resourceNodes g = filter (\<lambda>i. ntype (nodes g ! i) = ''ResourceNode'') [0..<length (nodes g)]"

text \<open>\<open>processNodes.find((node) => node.title === "Process") || processNodes[0]\<close>\<close>

definition mainProcess :: "graph \<Rightarrow> nat option" where
  "mainProcess g =
     (case find (\<lambda>i. title (nodes g ! i) = ''Process'') (processNodes g) of
        Some i \<Rightarrow> Some i
      | None \<Rightarrow> (case processNodes g of [] \<Rightarrow> None | i # _ \<Rightarrow> Some i))"

definition inputsOf :: "graph \<Rightarrow> nat list" where
  "inputsOf g = filter (\<lambda>i. resourceType (nodes g ! i) = ''input'') (resourceNodes g)"

definition outputsOf :: "graph \<Rightarrow> nat list" where
  "outputsOf g = filter (\<lambda>i. resourceType (nodes g ! i) \<noteq> ''input'' \<and>
                              resourceType (nodes g ! i) = ''output'') (resourceNodes g)"

definition mechanismsOf :: "graph \<Rightarrow> nat list" where
  "mechanismsOf g = filter (\<lambda>i. resourceType (nodes g ! i) \<noteq> ''input'' \<and>
                                 resourceType (nodes g ! i) \<noteq> ''output'') (resourceNodes g)"

text \<open>The map from a port to the node that holds it: every node in order, its inputs
  before its outputs, a later entry replacing an earlier one.\<close>

definition interfaceNodeMap :: "graph \<Rightarrow> nat \<Rightarrow> nat option" where
  "interfaceNodeMap g =
     fold (\<lambda>i m. fold (\<lambda>intf m. m(intf \<mapsto> i))
                       (inputValues (nodes g ! i) @ outputValues (nodes g ! i)) m)
          [0..<length (nodes g)] Map.empty"

text \<open>\<open>Object.values(o)[0]\<close>, undefined for an object without properties.\<close>

definition firstValue :: "nat list \<Rightarrow> nat option" where
  "firstValue vs = (case vs of [] \<Rightarrow> None | v # _ \<Rightarrow> Some v)"

text \<open>The owner of an input resource: the node at the far end of the first connection
  that leaves the resource's first output port, when that node is a process; the main
  process otherwise.\<close>

definition inputOwner :: "graph \<Rightarrow> nat option \<Rightarrow> nat \<Rightarrow> nat option" where
  "inputOwner g main inputNode =
     (let outputIntf = firstValue (outputValues (nodes g ! inputNode));
          conn = find (\<lambda>c. Some (cfrom c) = outputIntf) (connections g);
          owner = (case conn of Some c \<Rightarrow> interfaceNodeMap g (cto c) | None \<Rightarrow> main)
      in case owner of
           Some p \<Rightarrow> if ntype (nodes g ! p) = ''ProcessNode'' then Some p else main
         | None \<Rightarrow> main)"

definition outputOwner :: "graph \<Rightarrow> nat option \<Rightarrow> nat \<Rightarrow> nat option" where
  "outputOwner g main outputNode =
     (let inputIntf = firstValue (inputValues (nodes g ! outputNode));
          conn = find (\<lambda>c. Some (cto c) = inputIntf) (connections g);
          owner = (case conn of Some c \<Rightarrow> interfaceNodeMap g (cfrom c) | None \<Rightarrow> main)
      in case owner of
           Some p \<Rightarrow> if ntype (nodes g ! p) = ''ProcessNode'' then Some p else main
         | None \<Rightarrow> main)"

text \<open>A \<open>Map<ProcessNode, ResourceNode[]>\<close> in insertion order; \<open>pushGroup\<close> is
  \<open>if (!m.has(k)) m.set(k, []); m.get(k).push(item)\<close>.\<close>

fun pushGroup :: "nat \<Rightarrow> nat \<Rightarrow> (nat \<times> nat list) list \<Rightarrow> (nat \<times> nat list) list" where
  "pushGroup owner item [] = [(owner, [item])]"
| "pushGroup owner item ((k, members) # rest) =
     (if k = owner then (k, members @ [item]) # rest else (k, members) # pushGroup owner item rest)"

definition getGroup :: "(nat \<times> nat list) list \<Rightarrow> nat \<Rightarrow> nat list" where
  "getGroup groups p = (case map_of groups p of Some members \<Rightarrow> members | None \<Rightarrow> [])"

definition groupBy :: "(nat \<Rightarrow> nat option) \<Rightarrow> nat list \<Rightarrow> (nat \<times> nat list) list" where
  "groupBy ownerOf items =
     fold (\<lambda>item groups. case ownerOf item of None \<Rightarrow> groups
                                          | Some p \<Rightarrow> pushGroup p item groups) items []"

definition inputGroups :: "graph \<Rightarrow> (nat \<times> nat list) list" where
  "inputGroups g = groupBy (inputOwner g (mainProcess g)) (inputsOf g)"

definition outputGroups :: "graph \<Rightarrow> (nat \<times> nat list) list" where
  "outputGroups g = groupBy (outputOwner g (mainProcess g)) (outputsOf g)"

text \<open>\<open>Math.max(a, b)\<close> where \<open>a\<close> may be \<open>-Infinity\<close>.\<close>

definition maxInf :: "real option \<Rightarrow> real \<Rightarrow> real option" where
  "maxInf a b = (case a of None \<Rightarrow> Some b | Some x \<Rightarrow> Some (max x b))"

text \<open>\<open>sizes.reduce((sum, size) => sum + size.height, 0) + Math.max(0, n - 1) * gap\<close>\<close>

definition totalExtent :: "(Size \<Rightarrow> real) \<Rightarrow> real \<Rightarrow> Size list \<Rightarrow> real" where
  "totalExtent ext gap sizes =
     foldl (\<lambda>sum size. sum + ext size) 0 sizes + max 0 (real (length sizes) - 1) * gap"

subsection \<open>Landscape\<close>

text \<open>
  The helper closures of \<open>autoArrangeNodes\<close> read the measuring function
  \<open>getNodeSize\<close> (which closes over the graph's scaling and the document) and the
  numbers computed before them; here they take them as arguments.  Each takes the graph
  as it is when the closure runs and returns it with the positions it wrote.
\<close>

definition offsetFromProcess :: real where [simp]: "offsetFromProcess = 220"
definition verticalGap :: real where [simp]: "verticalGap = 30"
definition mechanismGap :: real where [simp]: "mechanismGap = 40"
definition processColumnGap :: real where [simp]: "processColumnGap = 40"

text \<open>The main process goes to the centre of the viewport, lifted by \<open>lift\<close> pixels
  (40 in landscape, 20 in portrait).\<close>

definition placeMainProcess :: "(nat \<Rightarrow> Size \<Rightarrow> Size) \<Rightarrow> real \<Rightarrow> real \<Rightarrow> real \<Rightarrow> nat option \<Rightarrow> graph \<Rightarrow> graph" where
  "placeMainProcess getSize cx cy lift main g =
     (case main of
        Some m \<Rightarrow>
          (let size = getSize m processFallback
           in setPos m (cx - width size / 2) (cy - height size / 2 - lift) g)
      | None \<Rightarrow> g)"

text \<open>\<open>placeLeftOfProcess\<close> returns the graph with the group placed and \<open>bottom\<close>.\<close>

definition placeLeftOfProcess ::
  "(nat \<Rightarrow> Size \<Rightarrow> Size) \<Rightarrow> real \<Rightarrow> nat \<Rightarrow> nat list \<Rightarrow> graph \<Rightarrow> graph \<times> real" where
  "placeLeftOfProcess getSize processTop processNode items g =
     (if items = [] then (g, processTop)
      else
        let processRect = getSize processNode processFallback;
            processX = posx (nodes g ! processNode) + width processRect / 2;
            processY = posy (nodes g ! processNode) + height processRect / 2;
            szs = map (\<lambda>i. getSize i resourceFallback) items;
            totalHeight = totalExtent height verticalGap szs;
            (g', currentY, bottom) =
              fold (\<lambda>(item, size) (g, currentY, bottom).
                      let x = processX - width processRect / 2 - offsetFromProcess - width size;
                          y = currentY
                      in (setPos item x y g, currentY + height size + verticalGap, y + height size))
                   (zip items szs) (g, processY - totalHeight / 2, processY - totalHeight / 2)
        in (g', bottom))"

text \<open>\<open>placeRightOfProcess\<close> returns the graph, \<open>maxRight\<close> and \<open>bottom\<close> (its
  \<open>top\<close> is never read).\<close>

definition placeRightOfProcess ::
  "(nat \<Rightarrow> Size \<Rightarrow> Size) \<Rightarrow> real \<Rightarrow> real \<Rightarrow> nat \<Rightarrow> nat list \<Rightarrow> graph
     \<Rightarrow> graph \<times> real option \<times> real" where
  "placeRightOfProcess getSize processRight processTop processNode items g =
     (if items = [] then (g, Some processRight, processTop)
      else
        let processRect = getSize processNode processFallback;
            processX = posx (nodes g ! processNode) + width processRect / 2;
            processY = posy (nodes g ! processNode) + height processRect / 2;
            szs = map (\<lambda>i. getSize i resourceFallback) items;
            totalHeight = totalExtent height verticalGap szs;
            (g', currentY, maxRight, bottom) =
              fold (\<lambda>(item, size) (g, currentY, maxRight, bottom).
                      let x = processX + width processRect / 2 + offsetFromProcess;
                          y = currentY
                      in (setPos item x y g, currentY + height size + verticalGap,
                          maxInf maxRight (x + width size), y + height size))
                   (zip items szs) (g, processY - totalHeight / 2, None, processY - totalHeight / 2)
        in (g', maxRight, bottom))"

text \<open>\<open>inputGroups.forEach\<close>: every group is placed left of its owner; \<open>inputsBottom\<close>
  starts at \<open>-Infinity\<close>.\<close>

definition placeInputColumns ::
  "(nat \<Rightarrow> Size \<Rightarrow> Size) \<Rightarrow> real \<Rightarrow> (nat \<times> nat list) list \<Rightarrow> graph \<Rightarrow> graph \<times> real option" where
  "placeInputColumns getSize processTop groups g =
     fold (\<lambda>(ownerProcess, group) (g, inputsBottom).
             let (g', bottom) = placeLeftOfProcess getSize processTop ownerProcess group g
             in (g', maxInf inputsBottom bottom))
          groups (g, None)"

text \<open>\<open>outputGroups.forEach\<close>: \<open>outputColumnRight\<close> starts at \<open>processRight\<close>,
  \<open>outputsBottom\<close> at \<open>-Infinity\<close>.\<close>

definition placeOutputColumns ::
  "(nat \<Rightarrow> Size \<Rightarrow> Size) \<Rightarrow> real \<Rightarrow> real \<Rightarrow> (nat \<times> nat list) list \<Rightarrow> graph
     \<Rightarrow> graph \<times> real \<times> real option" where
  "placeOutputColumns getSize processRight processTop groups g =
     fold (\<lambda>(ownerProcess, group) (g, outputColumnRight, outputsBottom).
             let (g', maxRight, bottom) =
                   placeRightOfProcess getSize processRight processTop ownerProcess group g
             in (g', (case maxRight of None \<Rightarrow> outputColumnRight
                                     | Some r \<Rightarrow> max outputColumnRight r),
                 maxInf outputsBottom bottom))
          groups (g, processRight, None)"

text \<open>The height of the mechanism row: \<open>Number.isFinite\<close> tells \<open>-Infinity\<close> from a
  bottom that some group set.\<close>

definition bottomRowY :: "real \<Rightarrow> real option \<Rightarrow> real option \<Rightarrow> real" where
  "bottomRowY processBottom inputsBottom outputsBottom =
     (let safeInputsBottom = (case inputsBottom of Some b \<Rightarrow> b | None \<Rightarrow> processBottom);
          safeOutputsBottom = (case outputsBottom of Some b \<Rightarrow> Some b | None \<Rightarrow> inputsBottom);
          bottomRowTarget = (case safeOutputsBottom of None \<Rightarrow> safeInputsBottom
                                                     | Some b \<Rightarrow> max safeInputsBottom b) + 10
      in max (processBottom + 20) bottomRowTarget)"

definition placeMechanismRow ::
  "(nat \<Rightarrow> Size \<Rightarrow> Size) \<Rightarrow> real \<Rightarrow> real \<Rightarrow> nat list \<Rightarrow> graph \<Rightarrow> graph" where
  "placeMechanismRow getSize cx rowY mechanisms g =
     (let mechSizes = map (\<lambda>i. getSize i resourceFallback) mechanisms;
          totalMechWidth = totalExtent width mechanismGap mechSizes
      in fst (fold (\<lambda>(item, size) (g, currentX).
                      (setPos item currentX rowY g, currentX + width size + mechanismGap))
                   (zip mechanisms mechSizes) (g, cx - totalMechWidth / 2)))"

definition placeSecondaryColumn ::
  "(nat \<Rightarrow> Size \<Rightarrow> Size) \<Rightarrow> real \<Rightarrow> real \<Rightarrow> real \<Rightarrow> nat list \<Rightarrow> graph \<Rightarrow> graph" where
  "placeSecondaryColumn getSize cx cy outputColumnRight secondaryProcesses g =
     (if secondaryProcesses = [] then g
      else
        let columnCenterX = max (outputColumnRight + 220) (cx + 520);
            szs = map (\<lambda>i. getSize i processFallback) secondaryProcesses;
            totalHeight = totalExtent height processColumnGap szs
        in fst (fold (\<lambda>(item, size) (g, currentY).
                        (setPos item (columnCenterX - width size / 2) currentY g,
                         currentY + height size + processColumnGap))
                     (zip secondaryProcesses szs) (g, cy - totalHeight / 2 - 40)))"

definition secondaryProcesses :: "graph \<Rightarrow> nat list" where
  "secondaryProcesses g = filter (\<lambda>i. Some i \<noteq> mainProcess g) (processNodes g)"

definition arrangeLandscape :: "env \<Rightarrow> graph \<Rightarrow> graph" where
  "arrangeLandscape e g0 =
     (let getSize = getNodeSize e g0;
          cx = centerX e g0;
          cy = centerY e g0;
          main = mainProcess g0;
          g1 = placeMainProcess getSize cx cy 40 main g0;
          processSize = (case main of Some m \<Rightarrow> getSize m processFallback | None \<Rightarrow> processFallback);
          processRight = cx + width processSize / 2;
          processTop = cy - height processSize / 2 - 40;
          processBottom = cy + height processSize / 2 - 40;
          (g2, inputsBottom) = placeInputColumns getSize processTop (inputGroups g0) g1;
          (g3, outputColumnRight, outputsBottom) =
            placeOutputColumns getSize processRight processTop (outputGroups g0) g2;
          g4 = placeMechanismRow getSize cx (bottomRowY processBottom inputsBottom outputsBottom)
                 (mechanismsOf g0) g3
      in placeSecondaryColumn getSize cx cy outputColumnRight (secondaryProcesses g0) g4)"

subsection \<open>Portrait\<close>

definition portrait_offsetFromProcess :: real where [simp]: "portrait_offsetFromProcess = 180"
definition portrait_mechanismGap :: real where [simp]: "portrait_mechanismGap = 90"
definition rowGap :: real where [simp]: "rowGap = 20"
definition columnGap :: real where [simp]: "columnGap = 20"

record RowMetrics =
  sizes :: "Size list"
  totalWidth :: real
  maxHeight :: real

definition getRowMetrics :: "(nat \<Rightarrow> Size \<Rightarrow> Size) \<Rightarrow> nat list \<Rightarrow> Size \<Rightarrow> RowMetrics" where
  "getRowMetrics getSize items fallback =
     (let szs = map (\<lambda>i. getSize i fallback) items
      in \<lparr>sizes = szs,
          totalWidth = totalExtent width rowGap szs,
          maxHeight = foldl (\<lambda>m size. max m (height size)) 0 szs\<rparr>)"

definition placeRowFromMetrics :: "nat list \<Rightarrow> RowMetrics \<Rightarrow> real \<Rightarrow> real \<Rightarrow> graph \<Rightarrow> graph" where
  "placeRowFromMetrics items metrics centerXPos y g =
     (if items = [] then g
      else fst (fold (\<lambda>(item, size) (g, currentX).
                        (setPos item currentX y g, currentX + width size + rowGap))
                     (zip items (sizes metrics)) (g, centerXPos - totalWidth metrics / 2)))"

definition placeColumnRight ::
  "(nat \<Rightarrow> Size \<Rightarrow> Size) \<Rightarrow> nat list \<Rightarrow> real \<Rightarrow> real \<Rightarrow> graph \<Rightarrow> graph" where
  "placeColumnRight getSize items x centerYPos g =
     (if items = [] then g
      else
        let szs = map (\<lambda>i. getSize i resourceFallback) items;
            totalHeight = totalExtent height columnGap szs
        in fst (fold (\<lambda>(item, size) (g, currentY).
                        (setPos item x currentY g, currentY + height size + columnGap))
                     (zip items szs) (g, centerYPos - totalHeight / 2)))"

text \<open>The body of \<open>secondaryProcesses.forEach\<close>: the output row below and the input row
  above one secondary process, around the position the process has by then.\<close>

definition placeSecondaryRows ::
  "(nat \<Rightarrow> Size \<Rightarrow> Size) \<Rightarrow> (nat \<times> nat list) list \<Rightarrow> (nat \<times> nat list) list \<Rightarrow> nat \<Rightarrow> graph \<Rightarrow> graph" where
  "placeSecondaryRows getSize inGroups outGroups processNode g =
     (let procSize = getSize processNode processFallback;
          procX = posx (nodes g ! processNode) + width procSize / 2;
          procY = posy (nodes g ! processNode) + height procSize / 2;
          procOutputs = getGroup outGroups processNode;
          procOutputsMetrics = getRowMetrics getSize procOutputs resourceFallback;
          procOutputY = procY + height procSize / 2 + portrait_offsetFromProcess;
          ga = placeRowFromMetrics procOutputs procOutputsMetrics procX procOutputY g;
          procInputs = getGroup inGroups processNode;
          procInputsMetrics = getRowMetrics getSize procInputs resourceFallback;
          procInputY = procY - height procSize / 2 - portrait_offsetFromProcess
                         - maxHeight procInputsMetrics
      in placeRowFromMetrics procInputs procInputsMetrics procX procInputY ga)"

text \<open>The block \<open>if (secondaryProcesses.length > 0) { ... }\<close>.\<close>

definition placeSecondaryProcesses ::
  "(nat \<Rightarrow> Size \<Rightarrow> Size) \<Rightarrow> (nat \<times> nat list) list \<Rightarrow> (nat \<times> nat list) list \<Rightarrow> real \<Rightarrow> real
     \<Rightarrow> nat list \<Rightarrow> graph \<Rightarrow> graph" where
  "placeSecondaryProcesses getSize inGroups outGroups processX outputsBottom secondaries g =
     (if secondaries = [] then g
      else
        let secondaryInputsMax =
              foldl max 0 (map (\<lambda>p. maxHeight (getRowMetrics getSize (getGroup inGroups p) resourceFallback))
                               secondaries);
            secondaryRowY = outputsBottom + portrait_offsetFromProcess + secondaryInputsMax + 40;
            secondaryMetrics = getRowMetrics getSize secondaries processFallback;
            g' = placeRowFromMetrics secondaries secondaryMetrics processX secondaryRowY g
        in fold (placeSecondaryRows getSize inGroups outGroups) secondaries g')"

definition arrangePortrait :: "env \<Rightarrow> graph \<Rightarrow> graph" where
  "arrangePortrait e g0 =
     (let getSize = getNodeSize e g0;
          cx = centerX e g0;
          cy = centerY e g0;
          main = mainProcess g0;
          g1 = placeMainProcess getSize cx cy 20 main g0;
          processRect = (case main of Some m \<Rightarrow> getSize m processFallback | None \<Rightarrow> processFallback);
          processX = (case main of Some m \<Rightarrow> posx (nodes g1 ! m) + width processRect / 2 | None \<Rightarrow> cx);
          processY = (case main of Some m \<Rightarrow> posy (nodes g1 ! m) + height processRect / 2 | None \<Rightarrow> cy);
          inputGroup = (case main of Some m \<Rightarrow> getGroup (inputGroups g0) m | None \<Rightarrow> []);
          inputMetrics = getRowMetrics getSize inputGroup resourceFallback;
          inputRowY = processY - height processRect / 2 - portrait_offsetFromProcess
                        - maxHeight inputMetrics;
          g2 = placeRowFromMetrics inputGroup inputMetrics processX inputRowY g1;
          outputGroup = (case main of Some m \<Rightarrow> getGroup (outputGroups g0) m | None \<Rightarrow> []);
          outputMetrics = getRowMetrics getSize outputGroup resourceFallback;
          outputRowY = processY + height processRect / 2 + portrait_offsetFromProcess;
          g3 = placeRowFromMetrics outputGroup outputMetrics processX outputRowY g2;
          g4 = placeSecondaryProcesses getSize (inputGroups g0) (outputGroups g0) processX
                 (outputRowY + maxHeight outputMetrics) (secondaryProcesses g0) g3;
          maxRowRight = max (max (processX + totalWidth inputMetrics / 2)
                                 (processX + totalWidth outputMetrics / 2))
                            (processX + width processRect / 2);
          mechanismX = maxRowRight + portrait_mechanismGap
      in placeColumnRight getSize (mechanismsOf g0) mechanismX processY g4)"

subsection \<open>The pass\<close>

definition autoArrangeNodes :: "env \<Rightarrow> graph \<Rightarrow> graph" where
  "autoArrangeNodes e g =
     (if nodes g = [] then g
      else if isPortrait e then arrangePortrait e g
      else arrangeLandscape e g)"

subsection \<open>What the pass leaves alone\<close>

definition erasePositions :: "graph \<Rightarrow> graph" where
  "erasePositions g = g\<lparr>nodes := map (\<lambda>n. n\<lparr>posx := 0, posy := 0\<rparr>) (nodes g)\<rparr>"

lemma erasePositions_setPos: "erasePositions (setPos i x y g) = erasePositions g"
proof -
  let ?f = "\<lambda>n. n\<lparr>posx := 0, posy := 0\<rparr>"
  have "map ?f ((nodes g)[i := (nodes g ! i)\<lparr>posx := x, posy := y\<rparr>]) = map ?f (nodes g)"
  proof (rule nth_equalityI)
    fix j assume "j < length (map ?f ((nodes g)[i := (nodes g ! i)\<lparr>posx := x, posy := y\<rparr>]))"
    then show "map ?f ((nodes g)[i := (nodes g ! i)\<lparr>posx := x, posy := y\<rparr>]) ! j = map ?f (nodes g) ! j"
      by (cases "j = i") simp_all
  qed simp
  then show ?thesis by (simp add: erasePositions_def setPos_def)
qed

lemma erasePositions_fold:
  "(\<And>x s. erasePositions (fst (f x s)) = erasePositions (fst s)) \<Longrightarrow>
   erasePositions (fst (fold f xs s)) = erasePositions (fst s)"
  by (induction xs arbitrary: s) simp_all

lemma erasePositions_fold_graph:
  "(\<And>x g. erasePositions (f x g) = erasePositions g) \<Longrightarrow>
   erasePositions (fold f xs g) = erasePositions g"
  by (induction xs arbitrary: g) simp_all

lemma erasePositions_placeMainProcess:
  "erasePositions (placeMainProcess sz cx cy lift main g) = erasePositions g"
  by (simp add: placeMainProcess_def Let_def erasePositions_setPos split: option.split)

lemma erasePositions_placeLeftOfProcess:
  "erasePositions (fst (placeLeftOfProcess sz t p items g)) = erasePositions g"
  by (simp add: placeLeftOfProcess_def Let_def split_beta erasePositions_fold erasePositions_setPos)

lemma erasePositions_placeRightOfProcess:
  "erasePositions (fst (placeRightOfProcess sz r t p items g)) = erasePositions g"
  by (simp add: placeRightOfProcess_def Let_def split_beta erasePositions_fold erasePositions_setPos)

lemma erasePositions_placeInputColumns:
  "erasePositions (fst (placeInputColumns sz t groups g)) = erasePositions g"
  by (simp add: placeInputColumns_def Let_def split_beta erasePositions_fold
        erasePositions_placeLeftOfProcess)

lemma erasePositions_placeOutputColumns:
  "erasePositions (fst (placeOutputColumns sz r t groups g)) = erasePositions g"
  by (simp add: placeOutputColumns_def Let_def split_beta erasePositions_fold
        erasePositions_placeRightOfProcess)

lemma erasePositions_placeMechanismRow:
  "erasePositions (placeMechanismRow sz cx y items g) = erasePositions g"
  by (simp add: placeMechanismRow_def Let_def split_beta erasePositions_fold erasePositions_setPos)

lemma erasePositions_placeSecondaryColumn:
  "erasePositions (placeSecondaryColumn sz cx cy r items g) = erasePositions g"
  by (simp add: placeSecondaryColumn_def Let_def split_beta erasePositions_fold erasePositions_setPos)

lemma erasePositions_placeRowFromMetrics:
  "erasePositions (placeRowFromMetrics items m cx y g) = erasePositions g"
  by (simp add: placeRowFromMetrics_def Let_def split_beta erasePositions_fold erasePositions_setPos)

lemma erasePositions_placeColumnRight:
  "erasePositions (placeColumnRight sz items x cy g) = erasePositions g"
  by (simp add: placeColumnRight_def Let_def split_beta erasePositions_fold erasePositions_setPos)

lemma erasePositions_placeSecondaryRows:
  "erasePositions (placeSecondaryRows sz ig og p g) = erasePositions g"
  by (simp add: placeSecondaryRows_def Let_def erasePositions_placeRowFromMetrics)

lemma erasePositions_placeSecondaryProcesses:
  "erasePositions (placeSecondaryProcesses sz ig og px ob items g) = erasePositions g"
  by (simp add: placeSecondaryProcesses_def Let_def erasePositions_fold_graph
        erasePositions_placeSecondaryRows erasePositions_placeRowFromMetrics)

lemma erasePositions_arrangeLandscape: "erasePositions (arrangeLandscape e g) = erasePositions g"
  unfolding arrangeLandscape_def Let_def split_beta
  by (simp only: erasePositions_placeSecondaryColumn erasePositions_placeMechanismRow
        erasePositions_placeOutputColumns erasePositions_placeInputColumns
        erasePositions_placeMainProcess)

lemma erasePositions_arrangePortrait: "erasePositions (arrangePortrait e g) = erasePositions g"
  unfolding arrangePortrait_def Let_def
  by (simp only: erasePositions_placeColumnRight erasePositions_placeSecondaryProcesses
        erasePositions_placeRowFromMetrics erasePositions_placeMainProcess)

text \<open>
  Claim C7.  A layout pass changes nothing but the \<open>x\<close> and \<open>y\<close> of node positions:
  with the positions blanked, the diagram after the pass is the diagram before it (the
  same nodes in the same order with the same ids, types, titles and ports, the same
  connections, the same view).
\<close>

theorem autoArrangeNodes_writes_positions_only:
  "erasePositions (autoArrangeNodes e g) = erasePositions g \<and>
   connections (autoArrangeNodes e g) = connections g \<and>
   length (nodes (autoArrangeNodes e g)) = length (nodes g)"
proof -
  have same: "erasePositions (autoArrangeNodes e g) = erasePositions g"
    by (simp add: autoArrangeNodes_def erasePositions_arrangeLandscape erasePositions_arrangePortrait)
  from same have "connections (erasePositions (autoArrangeNodes e g)) = connections (erasePositions g)"
    by simp
  moreover
  from same have "length (nodes (erasePositions (autoArrangeNodes e g))) = length (nodes (erasePositions g))"
    by simp
  ultimately show ?thesis using same by (simp add: erasePositions_def)
qed

subsection \<open>Grouping\<close>

definition orphanInput :: "graph \<Rightarrow> nat \<Rightarrow> bool" where
  "orphanInput g i =
     (filter (\<lambda>c. Some (cfrom c) = firstValue (outputValues (nodes g ! i))) (connections g) = [])"

definition orphanOutput :: "graph \<Rightarrow> nat \<Rightarrow> bool" where
  "orphanOutput g i =
     (filter (\<lambda>c. Some (cto c) = firstValue (inputValues (nodes g ! i))) (connections g) = [])"

text \<open>The nodes at the far end of the connections on the grouping port, in connection
  order.\<close>

definition inputNeighbours :: "graph \<Rightarrow> nat \<Rightarrow> nat option list" where
  "inputNeighbours g i =
     map (\<lambda>c. interfaceNodeMap g (cto c))
         (filter (\<lambda>c. Some (cfrom c) = firstValue (outputValues (nodes g ! i))) (connections g))"

definition outputNeighbours :: "graph \<Rightarrow> nat \<Rightarrow> nat option list" where
  "outputNeighbours g i =
     map (\<lambda>c. interfaceNodeMap g (cfrom c))
         (filter (\<lambda>c. Some (cto c) = firstValue (inputValues (nodes g ! i))) (connections g))"

text \<open>The primary process as the specification words it: the process titled
  \<open>Process\<close> or \<open>Folyamat\<close>, else the first process node.\<close>

definition specPrimaryProcess :: "graph \<Rightarrow> nat option" where
  "specPrimaryProcess g =
     (case find (\<lambda>i. title (nodes g ! i) = ''Process'' \<or> title (nodes g ! i) = ''Folyamat'')
                (processNodes g) of
        Some i \<Rightarrow> Some i
      | None \<Rightarrow> (case processNodes g of [] \<Rightarrow> None | i # _ \<Rightarrow> Some i))"

lemma getGroup_pushGroup:
  "getGroup (pushGroup q i groups) p = (if p = q then getGroup groups p @ [i] else getGroup groups p)"
  by (induction groups) (auto simp: getGroup_def)

lemma getGroup_fold:
  "getGroup (fold (\<lambda>item groups. case ownerOf item of None \<Rightarrow> groups
                                     | Some p \<Rightarrow> pushGroup p item groups) items groups) p
   = getGroup groups p @ filter (\<lambda>i. ownerOf i = Some p) items"
  by (induction items arbitrary: groups) (auto simp: getGroup_pushGroup split: option.split)

lemma getGroup_groupBy: "getGroup (groupBy ownerOf items) p = filter (\<lambda>i. ownerOf i = Some p) items"
  by (simp add: groupBy_def getGroup_fold) (simp add: getGroup_def)

lemma find_filter_Nil: "filter P xs = [] \<Longrightarrow> find P xs = None"
  by (induction xs) (auto split: if_splits)

lemma find_filter_Cons: "filter P xs = c # cs \<Longrightarrow> find P xs = Some c"
  by (induction xs) (auto split: if_splits)

lemma inputOwner_orphan: "orphanInput g i \<Longrightarrow> inputOwner g main i = main"
  by (auto simp: inputOwner_def orphanInput_def Let_def find_filter_Nil split: option.split)

lemma outputOwner_orphan: "orphanOutput g i \<Longrightarrow> outputOwner g main i = main"
  by (auto simp: outputOwner_def orphanOutput_def Let_def find_filter_Nil split: option.split)

lemma inputOwner_first:
  assumes "take 1 (inputNeighbours g i) = [n]"
  shows "inputOwner g main i
           = (case n of Some p \<Rightarrow> if ntype (nodes g ! p) = ''ProcessNode'' then Some p else main
                      | None \<Rightarrow> main)"
proof -
  let ?P = "\<lambda>c. Some (cfrom c) = firstValue (outputValues (nodes g ! i))"
  from assms obtain c cs where f: "filter ?P (connections g) = c # cs"
    by (cases "filter ?P (connections g)") (auto simp: inputNeighbours_def)
  with assms have "interfaceNodeMap g (cto c) = n"
    by (simp add: inputNeighbours_def)
  with find_filter_Cons [OF f] show ?thesis
    by (simp add: inputOwner_def Let_def)
qed

lemma outputOwner_first:
  assumes "take 1 (outputNeighbours g i) = [n]"
  shows "outputOwner g main i
           = (case n of Some p \<Rightarrow> if ntype (nodes g ! p) = ''ProcessNode'' then Some p else main
                      | None \<Rightarrow> main)"
proof -
  let ?P = "\<lambda>c. Some (cto c) = firstValue (inputValues (nodes g ! i))"
  from assms obtain c cs where f: "filter ?P (connections g) = c # cs"
    by (cases "filter ?P (connections g)") (auto simp: outputNeighbours_def)
  with assms have "interfaceNodeMap g (cfrom c) = n"
    by (simp add: outputNeighbours_def)
  with find_filter_Cons [OF f] show ?thesis
    by (simp add: outputOwner_def Let_def)
qed

lemma processNodes_sorted: "sorted_wrt (<) (processNodes g)"
  by (simp add: processNodes_def sorted_wrt_filter)

lemma find_sorted_least:
  "sorted_wrt (<) (xs :: nat list) \<Longrightarrow> find P xs = Some m \<Longrightarrow>
     m \<in> set xs \<and> P m \<and> (\<forall>j \<in> set xs. P j \<longrightarrow> m \<le> j)"
  by (induction xs) (auto split: if_splits intro: less_imp_le)

text \<open>The main process is the first process node titled \<open>Process\<close>, or the first
  process node when none is titled so.\<close>

definition firstProcessTitledProcess :: "graph \<Rightarrow> nat \<Rightarrow> bool" where
  "firstProcessTitledProcess g m =
     (m \<in> set (processNodes g) \<and> title (nodes g ! m) = ''Process'' \<and>
      (\<forall>j \<in> set (processNodes g). title (nodes g ! j) = ''Process'' \<longrightarrow> m \<le> j))"

definition firstProcessUntitled :: "graph \<Rightarrow> nat \<Rightarrow> bool" where
  "firstProcessUntitled g m =
     (m \<in> set (processNodes g) \<and>
      (\<forall>j \<in> set (processNodes g). title (nodes g ! j) \<noteq> ''Process'' \<and> m \<le> j))"

lemma mainProcess_rule:
  assumes "mainProcess g = Some m"
  shows "firstProcessTitledProcess g m \<or> firstProcessUntitled g m"
proof (cases "find (\<lambda>i. title (nodes g ! i) = ''Process'') (processNodes g)")
  case None
  with assms obtain rest where ps: "processNodes g = m # rest"
    by (auto simp: mainProcess_def split: list.splits)
  from None have "\<forall>j \<in> set (processNodes g). title (nodes g ! j) \<noteq> ''Process''"
    by (simp add: find_None_iff)
  moreover from processNodes_sorted [of g] ps have "\<forall>j \<in> set (processNodes g). m \<le> j"
    by (auto intro: less_imp_le)
  ultimately show ?thesis using ps by (simp add: firstProcessUntitled_def)
next
  case (Some i)
  with assms have "i = m" by (simp add: mainProcess_def)
  with Some find_sorted_least [OF processNodes_sorted, of "\<lambda>i. title (nodes g ! i) = ''Process''" g m]
  show ?thesis
    by (simp add: firstProcessTitledProcess_def)
qed

text \<open>
  Claim C2, amended.  When the diagram has a process node, an input or output resource
  whose grouping port carries no connection is in the group of the main process and in
  no other group; the main process is the first process node titled \<open>Process\<close>, or
  the first process node when none has that title.  (A title \<open>Folyamat\<close> plays no
  part.)
\<close>

theorem orphan_grouped_under_main:
  assumes "mainProcess g = Some m"
  shows "(i \<in> set (inputsOf g) \<and> orphanInput g i \<longrightarrow>
            (\<forall>p. i \<in> set (getGroup (inputGroups g) p) \<longleftrightarrow> p = m)) \<and>
         (i \<in> set (outputsOf g) \<and> orphanOutput g i \<longrightarrow>
            (\<forall>p. i \<in> set (getGroup (outputGroups g) p) \<longleftrightarrow> p = m)) \<and>
         (firstProcessTitledProcess g m \<or> firstProcessUntitled g m)"
  using assms mainProcess_rule [OF assms]
  by (auto simp: inputGroups_def outputGroups_def getGroup_groupBy inputOwner_orphan outputOwner_orphan)

text \<open>The process nodes an input resource is connected to through its grouping port,
  one for each connection that leads to a process.\<close>

definition inputProcesses :: "graph \<Rightarrow> nat \<Rightarrow> nat list" where
  "inputProcesses g i =
     List.map_filter (\<lambda>n. case n of None \<Rightarrow> None
                                  | Some p \<Rightarrow> if ntype (nodes g ! p) = ''ProcessNode'' then Some p else None)
       (inputNeighbours g i)"

text \<open>
  Claim C3, amended.  The first connection on the grouping port decides.  An input
  (output) resource whose first connection there leads to a process node \<open>p\<close> is in the
  input (output) group of \<open>p\<close> and in no other group, so it is in the main process's
  group only when \<open>p\<close> is the main process.  When the first connection leads to a node
  \<open>r\<close> that is not a process, the resource is in the main process's group and in no
  other, whatever its later connections.
\<close>

theorem first_connection_decides_group:
  "(ntype (nodes g ! p) = ''ProcessNode'' \<longrightarrow>
      (i \<in> set (inputsOf g) \<and> take 1 (inputNeighbours g i) = [Some p] \<longrightarrow>
         (\<forall>q. i \<in> set (getGroup (inputGroups g) q) \<longleftrightarrow> q = p)) \<and>
      (i \<in> set (outputsOf g) \<and> take 1 (outputNeighbours g i) = [Some p] \<longrightarrow>
         (\<forall>q. i \<in> set (getGroup (outputGroups g) q) \<longleftrightarrow> q = p))) \<and>
   (ntype (nodes g ! r) \<noteq> ''ProcessNode'' \<and> mainProcess g = Some m \<longrightarrow>
      (i \<in> set (inputsOf g) \<and> take 1 (inputNeighbours g i) = [Some r] \<longrightarrow>
         (\<forall>q. i \<in> set (getGroup (inputGroups g) q) \<longleftrightarrow> q = m)) \<and>
      (i \<in> set (outputsOf g) \<and> take 1 (outputNeighbours g i) = [Some r] \<longrightarrow>
         (\<forall>q. i \<in> set (getGroup (outputGroups g) q) \<longleftrightarrow> q = m)))"
  by (auto simp: inputGroups_def outputGroups_def getGroup_groupBy inputOwner_first
        outputOwner_first)


definition mkNode :: "string \<Rightarrow> string \<Rightarrow> string \<Rightarrow> string \<Rightarrow> nat list \<Rightarrow> nat list \<Rightarrow> node" where
  "mkNode i ty t r ins outs =
     \<lparr>nid = i, ntype = ty, title = t, resourceType = r, inputValues = ins, outputValues = outs,
      posx = 0, posy = 0\<rparr>"

text \<open>Two processes, the second one titled \<open>Folyamat\<close>, and an input resource that is
  connected to nothing.\<close>

definition folyamatGraph :: graph where
  "folyamatGraph =
     \<lparr>nodes = [mkNode ''a'' ''ProcessNode'' ''Waste'' [] [0] [1],
               mkNode ''b'' ''ProcessNode'' ''Folyamat'' [] [2] [3],
               mkNode ''c'' ''ResourceNode'' ''Input Material'' ''input'' [] [4]],
      connections = [], scaling = 1, panning = (0, 0)\<rparr>"

text \<open>
  Claim C2 as stated fails here: the specification's primary process is node \<open>1\<close>
  (titled \<open>Folyamat\<close>), and the unconnected input resource \<open>2\<close> is grouped under
  node \<open>0\<close>, the first process node.
\<close>

theorem orphan_not_grouped_under_Folyamat:
  "specPrimaryProcess folyamatGraph = Some 1 \<and>
   2 \<in> set (inputsOf folyamatGraph) \<and> orphanInput folyamatGraph 2 \<and>
   getGroup (inputGroups folyamatGraph) 1 = [] \<and>
   getGroup (inputGroups folyamatGraph) 0 = [2]"
  by code_simp

theorem orphan_grouped_under_main_witness:
  "mainProcess folyamatGraph = Some 0 \<and>
   2 \<in> set (inputsOf folyamatGraph) \<and> orphanInput folyamatGraph 2 \<and>
   2 \<in> set (getGroup (inputGroups folyamatGraph) 0) \<and>
   firstProcessUntitled folyamatGraph 0"
proof -
  have m: "mainProcess folyamatGraph = Some 0" by code_simp
  have i: "2 \<in> set (inputsOf folyamatGraph)" by code_simp
  have o: "orphanInput folyamatGraph 2" by code_simp
  have t: "\<not> firstProcessTitledProcess folyamatGraph 0" by code_simp
  from orphan_grouped_under_main [OF m, of 2] i o t m show ?thesis by simp
qed


text \<open>A diagram with a main process \<open>0\<close> and a secondary process \<open>1\<close>; input
  resources \<open>2\<close> (wired to the main process), \<open>3\<close> (wired to nothing) and \<open>4\<close>
  (wired to the secondary process); output resources \<open>5\<close> (of the main process) and
  \<open>6\<close> (of the secondary process); mechanisms \<open>7\<close> (wired) and \<open>8\<close> (not wired).
  Nothing is rendered yet, so every size is the fallback.\<close>

definition demoGraph :: graph where
  "demoGraph =
     \<lparr>nodes = [mkNode ''p0'' ''ProcessNode'' ''Process'' [] [0, 1] [2],
               mkNode ''p1'' ''ProcessNode'' ''Process 2'' [] [3] [4],
               mkNode ''r2'' ''ResourceNode'' ''Input 1'' ''input'' [] [5],
               mkNode ''r3'' ''ResourceNode'' ''Input 2'' ''input'' [] [6],
               mkNode ''r4'' ''ResourceNode'' ''Input 3'' ''input'' [] [7],
               mkNode ''r5'' ''ResourceNode'' ''Output 1'' ''output'' [8] [9],
               mkNode ''r6'' ''ResourceNode'' ''Output 2'' ''output'' [10] [11],
               mkNode ''r7'' ''ResourceNode'' ''Machine'' ''machine'' [] [12],
               mkNode ''r8'' ''ResourceNode'' ''Energy'' ''energy'' [] [13]],
      connections = [\<lparr>cfrom = 5, cto = 0\<rparr>, \<lparr>cfrom = 7, cto = 3\<rparr>, \<lparr>cfrom = 2, cto = 8\<rparr>,
                     \<lparr>cfrom = 4, cto = 10\<rparr>, \<lparr>cfrom = 12, cto = 1\<rparr>],
      scaling = 1, panning = (0, 0)\<rparr>"

definition landscapeEnv :: env where
  "landscapeEnv = \<lparr>innerWidth = 1600, innerHeight = 900, boundingRect = (\<lambda>_. None)\<rparr>"

definition portraitEnv :: env where
  "portraitEnv = \<lparr>innerWidth = 700, innerHeight = 1200, boundingRect = (\<lambda>_. None)\<rparr>"

text \<open>
  Claim C3 as stated fails when an earlier connection on the grouping port leads
  elsewhere.  In \<open>fanGraph\<close> the output port of the input resource \<open>2\<close> is connected
  first to the input port of the output resource \<open>3\<close> and then to an input port of the
  secondary process \<open>1\<close>.  Process \<open>1\<close> is the one process the resource is connected
  to, and it is not the main process; yet the resource is in the main process's group
  and not in the group of process \<open>1\<close>.
\<close>

definition fanGraph :: graph where
  "fanGraph =
     \<lparr>nodes = [mkNode ''p0'' ''ProcessNode'' ''Process'' [] [0] [1],
               mkNode ''p1'' ''ProcessNode'' ''Process 2'' [] [2] [3],
               mkNode ''r2'' ''ResourceNode'' ''Input 1'' ''input'' [] [4],
               mkNode ''r3'' ''ResourceNode'' ''Output 1'' ''output'' [5] [6]],
      connections = [\<lparr>cfrom = 4, cto = 5\<rparr>, \<lparr>cfrom = 4, cto = 2\<rparr>],
      scaling = 1, panning = (0, 0)\<rparr>"

theorem connected_to_one_process_grouped_under_main:
  "2 \<in> set (inputsOf fanGraph) \<and> inputNeighbours fanGraph 2 = [Some 3, Some 1] \<and>
   inputProcesses fanGraph 2 = [1] \<and> mainProcess fanGraph = Some 0 \<and>
   getGroup (inputGroups fanGraph) 1 = [] \<and> getGroup (inputGroups fanGraph) 0 = [2]"
  by code_simp

theorem first_connection_decides_group_witness:
  "ntype (nodes demoGraph ! 1) = ''ProcessNode'' \<and> mainProcess demoGraph = Some 0 \<and>
   4 \<in> set (inputsOf demoGraph) \<and> inputNeighbours demoGraph 4 = [Some 1] \<and>
   getGroup (inputGroups demoGraph) 1 = [4] \<and> 4 \<notin> set (getGroup (inputGroups demoGraph) 0) \<and>
   6 \<in> set (outputsOf demoGraph) \<and> outputNeighbours demoGraph 6 = [Some 1] \<and>
   getGroup (outputGroups demoGraph) 1 = [6] \<and> 6 \<notin> set (getGroup (outputGroups demoGraph) 0) \<and>
   ntype (nodes fanGraph ! 3) \<noteq> ''ProcessNode'' \<and> 2 \<in> set (inputsOf fanGraph) \<and>
   take 1 (inputNeighbours fanGraph 2) = [Some 3] \<and> mainProcess fanGraph = Some 0 \<and>
   2 \<in> set (getGroup (inputGroups fanGraph) 0) \<and> 2 \<notin> set (getGroup (inputGroups fanGraph) 1)"
proof -
  have p: "ntype (nodes demoGraph ! 1) = ''ProcessNode''" by code_simp
  have a: "4 \<in> set (inputsOf demoGraph)" "inputNeighbours demoGraph 4 = [Some 1]" by code_simp+
  have b: "6 \<in> set (outputsOf demoGraph)" "outputNeighbours demoGraph 6 = [Some 1]" by code_simp+
  have c: "mainProcess demoGraph = Some 0" "getGroup (inputGroups demoGraph) 1 = [4]"
    "getGroup (outputGroups demoGraph) 1 = [6]" by code_simp+
  have r: "ntype (nodes fanGraph ! 3) \<noteq> ''ProcessNode''" "2 \<in> set (inputsOf fanGraph)"
    "take 1 (inputNeighbours fanGraph 2) = [Some 3]" "mainProcess fanGraph = Some 0" by code_simp+
  from first_connection_decides_group [of demoGraph 1 4 3 0]
    first_connection_decides_group [of demoGraph 1 6 3 0]
    first_connection_decides_group [of fanGraph 1 2 3 0] a b c p r
  show ?thesis by simp
qed

theorem autoArrangeNodes_writes_positions_only_witness:
  "erasePositions (autoArrangeNodes landscapeEnv demoGraph) = demoGraph \<and>
   erasePositions (autoArrangeNodes portraitEnv demoGraph) = demoGraph"
proof -
  have "erasePositions demoGraph = demoGraph" by code_simp
  with autoArrangeNodes_writes_positions_only [of landscapeEnv demoGraph]
    autoArrangeNodes_writes_positions_only [of portraitEnv demoGraph]
  show ?thesis by simp
qed

text \<open>A main process, a secondary process and one input resource wired to the
  secondary process.\<close>

definition driftGraph :: graph where
  "driftGraph =
     \<lparr>nodes = [mkNode ''p0'' ''ProcessNode'' ''Process'' [] [0, 1] [2],
               mkNode ''p1'' ''ProcessNode'' ''Process 2'' [] [3] [4],
               mkNode ''r'' ''ResourceNode'' ''Input 3'' ''input'' [] [5]],
      connections = [\<lparr>cfrom = 5, cto = 3\<rparr>], scaling = 1, panning = (0, 0)\<rparr>"

definition positions :: "graph \<Rightarrow> (real \<times> real) list" where
  "positions g = map (\<lambda>n. (posx n, posy n)) (nodes g)"

text \<open>
  Claim C1 fails in landscape.  The input group of a secondary process is placed around
  the position the process has before the pass moves it, so the first pass puts the
  resource at \<open>(-420, 30)\<close> (the process was at the origin) and the second pass, with
  nothing changed in between, at \<open>(800, 350)\<close>.  The portrait branch places the
  secondary processes before their groups.
\<close>

theorem autoArrangeNodes_landscape_second_pass_moves:
  "positions (autoArrangeNodes landscapeEnv driftGraph) = [(700, 320), (1220, 320), (- 420, 30)] \<and>
   positions (autoArrangeNodes landscapeEnv (autoArrangeNodes landscapeEnv driftGraph))
     = [(700, 320), (1220, 320), (800, 350)]"
  by code_simp

section \<open>Arrowheads at the middle of a connection (src/App.vue)\<close>
















section \<open>Saving and loading a diagram (src/App.vue)\<close>

































section \<open>The positions a pass writes\<close>

subsection \<open>A stack walked with a running offset\<close>

text \<open>
  Every placing loop of the pass has one shape: it walks the items with a running
  offset, writes a position computed from the offset and the item's size, and advances
  the offset by the item's extent and a gap.  \<open>walk\<close> is that shape; each loop is shown
  to be an instance of it, and the facts about positions are proved once.
\<close>

definition walk ::
  "(real \<Rightarrow> Size \<Rightarrow> real) \<Rightarrow> (real \<Rightarrow> Size \<Rightarrow> real) \<Rightarrow> (Size \<Rightarrow> real) \<Rightarrow> real
     \<Rightarrow> (nat \<times> Size) list \<Rightarrow> graph \<times> real \<Rightarrow> graph \<times> real" where
  "walk fx fy ext gap =
     fold (\<lambda>(item, size) (g, cur). (setPos item (fx cur size) (fy cur size) g, cur + ext size + gap))"

text \<open>The offset at which item \<open>k\<close> is placed.\<close>

definition offsetAt :: "(Size \<Rightarrow> real) \<Rightarrow> real \<Rightarrow> real \<Rightarrow> Size list \<Rightarrow> nat \<Rightarrow> real" where
  "offsetAt ext gap start szs k = start + sum_list (map (\<lambda>size. ext size + gap) (take k szs))"

text \<open>\<open>onlyMoves S g g'\<close>: from \<open>g\<close> to \<open>g'\<close> no node outside \<open>S\<close> has changed.\<close>

definition onlyMoves :: "nat set \<Rightarrow> graph \<Rightarrow> graph \<Rightarrow> bool" where
  "onlyMoves S g g' =
     (length (nodes g') = length (nodes g) \<and> (\<forall>j. j \<notin> S \<longrightarrow> nodes g' ! j = nodes g ! j))"

lemma onlyMoves_refl: "onlyMoves S g g"
  by (simp add: onlyMoves_def)

lemma onlyMoves_trans: "onlyMoves S g g' \<Longrightarrow> onlyMoves T g' g'' \<Longrightarrow> onlyMoves (S \<union> T) g g''"
  by (simp add: onlyMoves_def)

lemma onlyMoves_mono: "onlyMoves S g g' \<Longrightarrow> S \<subseteq> T \<Longrightarrow> onlyMoves T g g'"
  by (auto simp: onlyMoves_def)

lemma onlyMoves_nth: "onlyMoves S g g' \<Longrightarrow> j \<notin> S \<Longrightarrow> nodes g' ! j = nodes g ! j"
  by (simp add: onlyMoves_def)


lemma onlyMoves_setPos: "onlyMoves {i} g (setPos i x y g)"
  by (simp add: onlyMoves_def setPos_def)

lemma posx_setPos: "i < length (nodes g) \<Longrightarrow> posx (nodes (setPos i x y g) ! i) = x"
  by (simp add: setPos_def)

lemma posy_setPos: "i < length (nodes g) \<Longrightarrow> posy (nodes (setPos i x y g) ! i) = y"
  by (simp add: setPos_def)

lemma walk_Nil: "walk fx fy ext gap [] st = st"
  by (simp add: walk_def)

lemma walk_Cons:
  "walk fx fy ext gap ((item, sz) # zs) (g, cur)
     = walk fx fy ext gap zs (setPos item (fx cur sz) (fy cur sz) g, cur + ext sz + gap)"
  by (simp add: walk_def)

lemma onlyMoves_walk: "onlyMoves (fst ` set zs) g (fst (walk fx fy ext gap zs (g, cur)))"
proof (induction zs arbitrary: g cur)
  case Nil
  show ?case by (simp add: walk_Nil onlyMoves_refl)
next
  case (Cons z zs)
  obtain item sz where z: "z = (item, sz)" by (cases z)
  have "onlyMoves ({item} \<union> fst ` set zs) g
          (fst (walk fx fy ext gap zs (setPos item (fx cur sz) (fy cur sz) g, cur + ext sz + gap)))"
    by (rule onlyMoves_trans [OF onlyMoves_setPos Cons.IH])
  then show ?case by (simp add: z walk_Cons)
qed

lemma offsetAt_0: "offsetAt ext gap start szs 0 = start"
  by (simp add: offsetAt_def)

lemma offsetAt_Suc_Cons:
  "offsetAt ext gap start (sz # szs) (Suc k) = offsetAt ext gap (start + ext sz + gap) szs k"
  by (simp add: offsetAt_def)

lemma offsetAt_step:
  "k < length szs \<Longrightarrow>
     offsetAt ext gap start szs (Suc k) = offsetAt ext gap start szs k + ext (szs ! k) + gap"
  by (simp add: offsetAt_def take_Suc_conv_app_nth)

lemma walk_position:
  assumes "distinct (map fst zs)" and "k < length zs" and "fst (zs ! k) < length (nodes g)"
  shows "posx (nodes (fst (walk fx fy ext gap zs (g, cur))) ! fst (zs ! k))
           = fx (offsetAt ext gap cur (map snd zs) k) (snd (zs ! k)) \<and>
         posy (nodes (fst (walk fx fy ext gap zs (g, cur))) ! fst (zs ! k))
           = fy (offsetAt ext gap cur (map snd zs) k) (snd (zs ! k))"
  using assms
proof (induction zs arbitrary: g cur k)
  case Nil
  then show ?case by simp
next
  case (Cons z zs)
  obtain item sz where z: "z = (item, sz)" by (cases z)
  let ?g = "setPos item (fx cur sz) (fy cur sz) g"
  let ?cur = "cur + ext sz + gap"
  show ?case
  proof (cases k)
    case 0
    from Cons.prems(1) z have "item \<notin> fst ` set zs" by simp
    with onlyMoves_walk [of zs ?g fx fy ext gap ?cur]
    have "nodes (fst (walk fx fy ext gap zs (?g, ?cur))) ! item = nodes ?g ! item"
      by (rule onlyMoves_nth)
    moreover from Cons.prems(3) 0 z have "item < length (nodes g)" by simp
    ultimately show ?thesis
      by (simp add: 0 z walk_Cons offsetAt_0 posx_setPos posy_setPos)
  next
    case (Suc k')
    from Cons.prems Suc have d: "distinct (map fst zs)" and k: "k' < length zs"
      and r: "fst (zs ! k') < length (nodes ?g)"
      by (simp_all add: setPos_def)
    from Cons.IH [OF d k r, of ?cur] show ?thesis
      by (simp add: Suc z walk_Cons offsetAt_Suc_Cons)
  qed
qed






subsection \<open>The loops as walks\<close>

lemma placeMechanismRow_walk:
  "placeMechanismRow getSize cx rowY ms g =
     fst (walk (\<lambda>cur sz. cur) (\<lambda>cur sz. rowY) width mechanismGap
            (zip ms (map (\<lambda>i. getSize i resourceFallback) ms))
            (g, cx - totalExtent width mechanismGap (map (\<lambda>i. getSize i resourceFallback) ms) / 2))"
  by (simp add: placeMechanismRow_def walk_def Let_def)











subsection \<open>Stacks\<close>

text \<open>
  \<open>stacked coord ext gap sizeOf items g\<close>: along the axis \<open>coord\<close>, every item of the
  list begins where its predecessor ends (its coordinate plus its extent) plus \<open>gap\<close>.
\<close>

definition stacked ::
  "(node \<Rightarrow> real) \<Rightarrow> (Size \<Rightarrow> real) \<Rightarrow> real \<Rightarrow> (nat \<Rightarrow> Size) \<Rightarrow> nat list \<Rightarrow> graph \<Rightarrow> bool" where
  "stacked coord ext gap sizeOf items g =
     (\<forall>k. Suc k < length items \<longrightarrow>
        coord (nodes g ! (items ! Suc k))
          = coord (nodes g ! (items ! k)) + ext (sizeOf (items ! k)) + gap)"

lemma zip_map_nth: "k < length items \<Longrightarrow> zip items (map f items) ! k = (items ! k, f (items ! k))"
  by simp

lemma map_fst_zip_map: "map fst (zip items (map f items)) = items"
  by (simp add: map_fst_zip)

lemma map_snd_zip_map: "map snd (zip items (map f items)) = map f items"
  by (simp add: map_snd_zip)

lemma walk_items_position:
  assumes "distinct items" and "k < length items" and "items ! k < length (nodes g)"
  shows "posx (nodes (fst (walk fx fy ext gap (zip items (map f items)) (g, cur))) ! (items ! k))
           = fx (offsetAt ext gap cur (map f items) k) (f (items ! k))"
    and "posy (nodes (fst (walk fx fy ext gap (zip items (map f items)) (g, cur))) ! (items ! k))
           = fy (offsetAt ext gap cur (map f items) k) (f (items ! k))"
  using walk_position [of "zip items (map f items)" k g fx fy ext gap cur] assms
  by (simp_all add: map_fst_zip_map map_snd_zip_map)



lemma stacked_walk_x:
  assumes "distinct items" and "\<forall>i \<in> set items. i < length (nodes g)"
  shows "stacked posx width gap f items
           (fst (walk (\<lambda>cur sz. cur) fy width gap (zip items (map f items)) (g, cur)))"
  unfolding stacked_def
proof (intro allI impI)
  fix k assume k: "Suc k < length items"
  then have k': "k < length items" by simp
  from assms(2) k k' have r: "items ! Suc k < length (nodes g)" "items ! k < length (nodes g)"
    by simp_all
  from k' have "offsetAt width gap cur (map f items) (Suc k)
                  = offsetAt width gap cur (map f items) k + width (f (items ! k)) + gap"
    by (simp add: offsetAt_step)
  with walk_items_position(1) [OF assms(1) k r(1), of "\<lambda>cur sz. cur" fy width gap f cur]
    walk_items_position(1) [OF assms(1) k' r(2), of "\<lambda>cur sz. cur" fy width gap f cur]
  show "posx (nodes (fst (walk (\<lambda>cur sz. cur) fy width gap (zip items (map f items)) (g, cur)))
                ! (items ! Suc k))
        = posx (nodes (fst (walk (\<lambda>cur sz. cur) fy width gap (zip items (map f items)) (g, cur)))
                ! (items ! k)) + width (f (items ! k)) + gap"
    by simp
qed


subsection \<open>What each step moves\<close>








text \<open>The members of all groups of a map.\<close>

definition members :: "(nat \<times> nat list) list \<Rightarrow> nat set" where
  "members groups = (\<Union>(p, items) \<in> set groups. set items)"



lemma members_append: "members (gs @ hs) = members gs \<union> members hs"
  by (auto simp: members_def)





subsection \<open>The kinds of nodes and the groups\<close>

lemma processNodes_iff:
  "i \<in> set (processNodes g) \<longleftrightarrow> i < length (nodes g) \<and> ntype (nodes g ! i) = ''ProcessNode''"
  by (auto simp: processNodes_def)

lemma resourceNodes_iff:
  "i \<in> set (resourceNodes g) \<longleftrightarrow> i < length (nodes g) \<and> ntype (nodes g ! i) = ''ResourceNode''"
  by (auto simp: resourceNodes_def)


lemma distinct_resourceNodes: "distinct (resourceNodes g)"
  by (simp add: resourceNodes_def)

lemma inputsOf_iff:
  "i \<in> set (inputsOf g) \<longleftrightarrow> i \<in> set (resourceNodes g) \<and> resourceType (nodes g ! i) = ''input''"
  by (auto simp: inputsOf_def)

lemma outputsOf_iff:
  "i \<in> set (outputsOf g) \<longleftrightarrow> i \<in> set (resourceNodes g) \<and> resourceType (nodes g ! i) = ''output''"
  by (auto simp: outputsOf_def)

lemma mechanismsOf_iff:
  "i \<in> set (mechanismsOf g) \<longleftrightarrow>
     i \<in> set (resourceNodes g) \<and> resourceType (nodes g ! i) \<noteq> ''input''
       \<and> resourceType (nodes g ! i) \<noteq> ''output''"
  by (auto simp: mechanismsOf_def)

lemma distinct_inputsOf: "distinct (inputsOf g)"
  by (simp add: inputsOf_def distinct_resourceNodes)

lemma distinct_outputsOf: "distinct (outputsOf g)"
  by (simp add: outputsOf_def distinct_resourceNodes)


















lemma getGroup_inputGroups:
  "distinct (getGroup (inputGroups g) p) \<and> set (getGroup (inputGroups g) p) \<subseteq> set (inputsOf g)"
  by (auto simp: inputGroups_def getGroup_groupBy distinct_inputsOf)

lemma getGroup_outputGroups:
  "distinct (getGroup (outputGroups g) p) \<and> set (getGroup (outputGroups g) p) \<subseteq> set (outputsOf g)"
  by (auto simp: outputGroups_def getGroup_groupBy distinct_outputsOf)






lemma kinds_in_range:
  "i \<in> set (inputsOf g) \<Longrightarrow> i < length (nodes g)"
  "i \<in> set (outputsOf g) \<Longrightarrow> i < length (nodes g)"
  "i \<in> set (mechanismsOf g) \<Longrightarrow> i < length (nodes g)"
  "i \<in> set (processNodes g) \<Longrightarrow> i < length (nodes g)"
  by (auto simp: inputsOf_iff outputsOf_iff mechanismsOf_iff resourceNodes_iff processNodes_iff)

subsection \<open>Stacks of the landscape pass\<close>


abbreviation processSize :: "env \<Rightarrow> graph \<Rightarrow> nat \<Rightarrow> Size" where
  "processSize e g i \<equiv> getNodeSize e g i processFallback"



lemma stacked_placeMechanismRow:
  assumes "distinct ms" and "\<forall>i \<in> set ms. i < length (nodes g)"
  shows "stacked posx width mechanismGap (\<lambda>i. getSize i resourceFallback) ms
           (placeMechanismRow getSize cx rowY ms g)"
  unfolding placeMechanismRow_walk using assms by (rule stacked_walk_x)
















subsection \<open>The centre of the mechanism row\<close>






subsection \<open>Stacks of the portrait pass\<close>



text \<open>The resources a process owns: its output group and its input group.\<close>

definition ownedBy :: "graph \<Rightarrow> nat \<Rightarrow> nat set" where
  "ownedBy g p = set (getGroup (outputGroups g) p) \<union> set (getGroup (inputGroups g) p)"

lemma ownedBy_resources: "ownedBy g p \<subseteq> set (inputsOf g) \<union> set (outputsOf g)"
  using getGroup_inputGroups [of g p] getGroup_outputGroups [of g p] by (auto simp: ownedBy_def)

lemma ownedBy_in_range: "i \<in> ownedBy g p \<Longrightarrow> i < length (nodes g)"
  using ownedBy_resources [of g p] by (auto dest: kinds_in_range)











text \<open>The group of the main process, empty without one.\<close>

definition mainGroup :: "graph \<Rightarrow> (nat \<times> nat list) list \<Rightarrow> nat list" where
  "mainGroup g groups = (case mainProcess g of Some m \<Rightarrow> getGroup groups m | None \<Rightarrow> [])"

lemma mainGroup_inputs:
  "distinct (mainGroup g (inputGroups g)) \<and> set (mainGroup g (inputGroups g)) \<subseteq> set (inputsOf g)"
  using getGroup_inputGroups [of g] by (simp add: mainGroup_def split: option.split)



















subsection \<open>Spacing within a stack\<close>











subsection \<open>Which sizes the pass reads\<close>




























end
